theory Spec2Isabelle
  imports Complex_Main "HOL-Library.Word" "HOL-Library.Signed_Division"
begin

unbundle bit_operations_syntax

section \<open>The identicon package (identicon.go)\<close>

text \<open>
  The package has two entry points, \<open>Code\<close> and \<open>Render\<close>. Both call into libraries
  that are not part of the repository: \<open>crypto/sha512\<close>, \<open>encoding/binary\<close>,
  \<open>encoding/hex\<close>, \<open>strings\<close>, \<open>math/rand\<close> and \<open>github.com/fogleman/gg\<close>.
  The small, fully documented library functions (\<open>strings.TrimPrefix\<close>,
  \<open>hex.DecodeString\<close>, \<open>binary.BigEndian.Uint64\<close>) are written out after their
  documentation. The digest function and the pseudo-random generator are parameters of
  the model. A drawing context of \<open>gg\<close> is the list of the method calls it has
  received: that list is all this package contributes to the picture.

  Go's \<open>uint64\<close> is \<open>64 word\<close>, \<open>uint8\<close> is \<open>8 word\<close>, \<open>int\<close> is \<open>int\<close> (no
  computation of the package leaves the 64-bit range). \<open>float64\<close> is idealised as
  \<open>real\<close>. A Go \<open>string\<close> is its byte sequence, here \<open>string\<close>.
\<close>

subsection \<open>Failures\<close>

text \<open>
  \<open>hexConvert\<close> and \<open>Render\<close> return a Go \<open>error\<close>; indexing out of range,
  \<open>Intn\<close> with a non-positive bound and a method call through a nil pointer panic.
\<close>

datatype hex_error =
    InvalidByteError char
  | ErrLength
  | NotSixDigits

datatype panic =
    IndexOutOfRange
  | IntnNonPositive
  | NilPointer

datatype failure =
    Err hex_error
  | Panic panic

text \<open>Slice indexing \<open>xs[i]\<close> with Go's bounds check.\<close>

definition index_at :: "'a list \<Rightarrow> int \<Rightarrow> failure + 'a" where
  "index_at xs i =
     (if 0 \<le> i \<and> i < int (length xs) then Inr (xs ! nat i) else Inl (Panic IndexOutOfRange))"

subsection \<open>hexConvert (lines 17--27)\<close>

text \<open>\<open>strings.TrimPrefix\<close>: the string without the prefix, when it starts with it.\<close>

definition TrimPrefix :: "string \<Rightarrow> string \<Rightarrow> string" where
  "TrimPrefix s pre = (if take (length pre) s = pre then drop (length pre) s else s)"

text \<open>
  \<open>encoding/hex\<close>: a digit is one of \<open>0..9\<close>, \<open>a..f\<close>, \<open>A..F\<close>. \<open>Decode\<close> reads
  the input in pairs; a character that is no digit is reported before an odd length.
\<close>

definition fromHexChar :: "char \<Rightarrow> 8 word option" where
  "fromHexChar c =
     (let n = (of_char c :: nat) in
      if 48 \<le> n \<and> n \<le> 57 then Some (of_nat (n - 48))
      else if 97 \<le> n \<and> n \<le> 102 then Some (of_nat (n - 97 + 10))
      else if 65 \<le> n \<and> n \<le> 70 then Some (of_nat (n - 65 + 10))
      else None)"

fun DecodeString :: "string \<Rightarrow> hex_error + 8 word list" where
  "DecodeString [] = Inr []"
| "DecodeString [p] =
     (case fromHexChar p of None \<Rightarrow> Inl (InvalidByteError p) | Some a \<Rightarrow> Inl ErrLength)"
| "DecodeString (p # q # rest) =
     (case fromHexChar p of
        None \<Rightarrow> Inl (InvalidByteError p)
      | Some a \<Rightarrow>
          (case fromHexChar q of
             None \<Rightarrow> Inl (InvalidByteError q)
           | Some b \<Rightarrow>
               (case DecodeString rest of
                  Inl e \<Rightarrow> Inl e
                | Inr bs \<Rightarrow> Inr ((push_bit 4 a OR b) # bs))))"

definition hexConvert :: "string \<Rightarrow> hex_error + (8 word \<times> 8 word \<times> 8 word)" where
  "hexConvert code =
     (let code = TrimPrefix code ''#'' in
      case DecodeString code of
        Inl err \<Rightarrow> Inl err
      | Inr b \<Rightarrow>
          if length b \<noteq> 3 then Inl NotSixDigits
          else Inr (b ! 0, b ! 1, b ! 2))"

subsection \<open>Code (lines 30--33)\<close>

text \<open>
  \<open>sha512.Sum512\<close> returns a \<open>[64]byte\<close>: an array type, so the length is part of
  the type. The digest function itself is a parameter \<open>Sum512\<close>.
\<close>

typedef bytes64 = "{bs :: 8 word list. length bs = 64}"
  by (rule exI [of _ "replicate 64 0"]) simp

text \<open>
  \<open>binary.BigEndian.Uint64\<close>: the bounds check \<open>_ = b[7]\<close>, then the eight bytes
  shifted into place.
\<close>

definition Uint64 :: "8 word list \<Rightarrow> failure + 64 word" where
  "Uint64 b =
     (if length b \<le> 7 then Inl (Panic IndexOutOfRange)
      else Inr (ucast (b ! 7) OR push_bit 8 (ucast (b ! 6)) OR push_bit 16 (ucast (b ! 5))
        OR push_bit 24 (ucast (b ! 4)) OR push_bit 32 (ucast (b ! 3))
        OR push_bit 40 (ucast (b ! 2)) OR push_bit 48 (ucast (b ! 1))
        OR push_bit 56 (ucast (b ! 0))))"

definition Code :: "(string \<Rightarrow> bytes64) \<Rightarrow> string \<Rightarrow> failure + 64 word" where
  "Code Sum512 str =
     (let buf = Rep_bytes64 (Sum512 str) in Uint64 (drop 56 buf))"

text \<open>
  The words of the specification: the final eight bytes of the digest, read as a
  big-endian number.
\<close>

definition final8 :: "8 word list \<Rightarrow> 8 word list" where
  "final8 d = drop (length d - 8) d"

definition big_endian :: "8 word list \<Rightarrow> nat" where
  "big_endian bs = foldl (\<lambda>acc b. 256 * acc + unat b) 0 bs"

subsection \<open>Colours and settings (lines 35--106)\<close>

record Color =
  Color_Name :: string
  Color_Code :: string

definition DefaultColorPalette :: "Color list" where
  "DefaultColorPalette =
    [\<lparr>Color_Name = ''lightBlack'', Color_Code = ''#2c2c2c''\<rparr>,
     \<lparr>Color_Name = ''lightBlackIntense'', Color_Code = ''#232323''\<rparr>,
     \<lparr>Color_Name = ''turquoise'', Color_Code = ''#00bf93''\<rparr>,
     \<lparr>Color_Name = ''turquoiseIntense'', Color_Code = ''#16a086''\<rparr>,
     \<lparr>Color_Name = ''mint'', Color_Code = ''#2dcc70''\<rparr>,
     \<lparr>Color_Name = ''mintIntense'', Color_Code = ''#27ae61''\<rparr>,
     \<lparr>Color_Name = ''green'', Color_Code = ''#42e453''\<rparr>,
     \<lparr>Color_Name = ''greenIntense'', Color_Code = ''#24c333''\<rparr>,
     \<lparr>Color_Name = ''yellow'', Color_Code = ''#ffff25''\<rparr>,
     \<lparr>Color_Name = ''yellowIntense'', Color_Code = ''#d9d921''\<rparr>,
     \<lparr>Color_Name = ''yellowOrange'', Color_Code = ''#f1c40f''\<rparr>,
     \<lparr>Color_Name = ''yellowOrangeIntense'', Color_Code = ''#f39c11''\<rparr>,
     \<lparr>Color_Name = ''brown'', Color_Code = ''#e67f22''\<rparr>,
     \<lparr>Color_Name = ''brownIntense'', Color_Code = ''#d25400''\<rparr>,
     \<lparr>Color_Name = ''orange'', Color_Code = ''#ff944e''\<rparr>,
     \<lparr>Color_Name = ''orangeIntense'', Color_Code = ''#ff5500''\<rparr>,
     \<lparr>Color_Name = ''red'', Color_Code = ''#e84c3d''\<rparr>,
     \<lparr>Color_Name = ''redIntense'', Color_Code = ''#c1392b''\<rparr>,
     \<lparr>Color_Name = ''blue'', Color_Code = ''#3598db''\<rparr>,
     \<lparr>Color_Name = ''blueIntense'', Color_Code = ''#297fb8''\<rparr>,
     \<lparr>Color_Name = ''darkBlue'', Color_Code = ''#34495e''\<rparr>,
     \<lparr>Color_Name = ''darkBlueIntense'', Color_Code = ''#2d3e50''\<rparr>,
     \<lparr>Color_Name = ''lightGrey'', Color_Code = ''#ecf0f1''\<rparr>,
     \<lparr>Color_Name = ''lightGreyIntense'', Color_Code = ''#bec3c7''\<rparr>,
     \<lparr>Color_Name = ''grey'', Color_Code = ''#95a5a5''\<rparr>,
     \<lparr>Color_Name = ''greyIntense'', Color_Code = ''#7e8c8d''\<rparr>,
     \<lparr>Color_Name = ''magenta'', Color_Code = ''#ef3e96''\<rparr>,
     \<lparr>Color_Name = ''magentaIntense'', Color_Code = ''#e52383''\<rparr>,
     \<lparr>Color_Name = ''violet'', Color_Code = ''#df21b9''\<rparr>,
     \<lparr>Color_Name = ''violetIntense'', Color_Code = ''#be127e''\<rparr>,
     \<lparr>Color_Name = ''purple'', Color_Code = ''#9a59b5''\<rparr>,
     \<lparr>Color_Name = ''purpleIntense'', Color_Code = ''#8d44ad''\<rparr>,
     \<lparr>Color_Name = ''lightBlue'', Color_Code = ''#7dc2d2''\<rparr>,
     \<lparr>Color_Name = ''lightBlueIntense'', Color_Code = ''#1cabbb''\<rparr>,
     \<lparr>Color_Name = ''white'', Color_Code = ''#ffffff''\<rparr>,
     \<lparr>Color_Name = ''whiteIntense'', Color_Code = ''#f3f5f7''\<rparr>,
     \<lparr>Color_Name = ''black'', Color_Code = ''#000000''\<rparr>]"

record Settings =
  TwoColor :: bool
  Alpha :: "8 word"
  TransparentBackground :: bool
  ColorPalette :: "Color list"
  BackgroundColors :: "string list"

definition DefaultSettings :: Settings where
  "DefaultSettings =
     (let palette = DefaultColorPalette;
          backgroundColors = [''#f3f5f7'', ''#ecf0f1'', ''#2d3e50'', ''#393939'']
      in \<lparr>TwoColor = True, Alpha = 255, TransparentBackground = False,
          ColorPalette = palette, BackgroundColors = backgroundColors\<rparr>)"

subsection \<open>The libraries Render calls\<close>

text \<open>
  \<open>math/rand\<close>: \<open>NewSource seed\<close> is the state of a generator seeded with \<open>seed\<close>;
  \<open>Intn g n\<close> is the number drawn from state \<open>g\<close> for the bound \<open>n > 0\<close> and the
  state after the draw. Both are parameters. The library documents that \<open>Intn\<close>
  returns a number in \<open>[0, n)\<close> and panics if \<open>n \<le> 0\<close>.
\<close>

record 'g rand_lib =
  NewSource :: "int \<Rightarrow> 'g"
  Intn :: "'g \<Rightarrow> int \<Rightarrow> int \<times> 'g"

definition Intn_contract :: "'g rand_lib \<Rightarrow> bool" where
  "Intn_contract R = (\<forall>g n. 0 < n \<longrightarrow> 0 \<le> fst (Intn R g n) \<and> fst (Intn R g n) < n)"

text \<open>
  \<open>gg\<close>: the methods Render and drawPatch call on a \<open>*gg.Context\<close>, with their
  arguments. \<open>color.RGBA\<close> has the fields R, G, B, A in this order; \<open>gg.Point\<close> has
  X and Y.
\<close>

datatype RGBA = RGBA "8 word" "8 word" "8 word" "8 word"

datatype Point = Point (X: real) (Y: real)

datatype gg_call =
    Push
  | Pop
  | Translate real real
  | RotateAbout real real real
  | MoveTo real real
  | LineTo real real
  | ClosePath
  | DrawRectangle real real real real
  | SetRGB255 int int int
  | SetColor RGBA
  | Fill

text \<open>A context: the size it was created with and the calls it has received, oldest first.\<close>

record Context =
  ctx_width :: int
  ctx_height :: int
  ctx_calls :: "gg_call list"

text \<open>
  \<open>rand.New\<close> and \<open>gg.NewContext\<close> allocate an object and return a pointer to it;
  the methods mutate the object they are called on (the variable \<open>image\<close> of the source is \<open>img\<close> here). The store holds the objects by
  address, so that what one call of Render shares with another is visible.
\<close>

record 'g heap =
  rands :: "nat \<Rightarrow> 'g option"
  contexts :: "nat \<Rightarrow> Context option"
  next_addr :: nat

type_synonym ('g, 'a) prog = "'g heap \<Rightarrow> (failure + 'a) \<times> 'g heap"

definition ret :: "'a \<Rightarrow> ('g, 'a) prog" where
  "ret x h = (Inr x, h)"

definition lift :: "failure + 'a \<Rightarrow> ('g, 'a) prog" where
  "lift r h = (r, h)"

definition lift_err :: "hex_error + 'a \<Rightarrow> ('g, 'a) prog" where
  "lift_err r h = (case r of Inl err \<Rightarrow> (Inl (Err err), h) | Inr x \<Rightarrow> (Inr x, h))"

definition bind_prog :: "('g, 'a) prog \<Rightarrow> ('a \<Rightarrow> ('g, 'b) prog) \<Rightarrow> ('g, 'b) prog" where
  "bind_prog m f h = (case m h of (Inl e, h') \<Rightarrow> (Inl e, h') | (Inr x, h') \<Rightarrow> f x h')"

fun for_each :: "'a list \<Rightarrow> ('a \<Rightarrow> ('g, unit) prog) \<Rightarrow> ('g, unit) prog" where
  "for_each [] body = ret ()"
| "for_each (x # xs) body = bind_prog (body x) (\<lambda>_. for_each xs body)"

definition rand_New :: "'g rand_lib \<Rightarrow> int \<Rightarrow> ('g, nat) prog" where
  "rand_New R seed h =
     (Inr (next_addr h),
      h\<lparr>rands := (rands h)(next_addr h \<mapsto> NewSource R seed), next_addr := next_addr h + 1\<rparr>)"

definition rand_Intn :: "'g rand_lib \<Rightarrow> nat \<Rightarrow> int \<Rightarrow> ('g, int) prog" where
  "rand_Intn R rnd n h =
     (case rands h rnd of
        None \<Rightarrow> (Inl (Panic NilPointer), h)
      | Some g \<Rightarrow>
          if n \<le> 0 then (Inl (Panic IntnNonPositive), h)
          else (Inr (fst (Intn R g n)), h\<lparr>rands := (rands h)(rnd \<mapsto> snd (Intn R g n))\<rparr>))"

definition NewContext :: "int \<Rightarrow> int \<Rightarrow> ('g, nat) prog" where
  "NewContext w ht h =
     (Inr (next_addr h),
      h\<lparr>contexts := (contexts h)(next_addr h \<mapsto>
           \<lparr>ctx_width = w, ctx_height = ht, ctx_calls = []\<rparr>),
        next_addr := next_addr h + 1\<rparr>)"

definition gg :: "nat \<Rightarrow> gg_call \<Rightarrow> ('g, unit) prog" where
  "gg img c h =
     (case contexts h img of
        None \<Rightarrow> (Inl (Panic NilPointer), h)
      | Some ctx \<Rightarrow>
          (Inr (), h\<lparr>contexts := (contexts h)(img \<mapsto> ctx\<lparr>ctx_calls := ctx_calls ctx @ [c]\<rparr>)\<rparr>))"

text \<open>\<open>image.Image()\<close>: the picture of the context, here the context as it stands.\<close>

definition Image :: "nat \<Rightarrow> ('g, Context) prog" where
  "Image img h =
     (case contexts h img of
        None \<Rightarrow> (Inl (Panic NilPointer), h)
      | Some ctx \<Rightarrow> (Inr ctx, h))"

subsection \<open>The patch tables (lines 202--238)\<close>

definition pathSet :: "Point list list" where
  "pathSet =
    [[Point 0 0, Point 4 0, Point 4 4, Point 0 4],
     [Point 0 0, Point 4 0, Point 0 4],
     [Point 2 0, Point 4 4, Point 0 4],
     [Point 0 0, Point 2 0, Point 2 4, Point 0 4],
     [Point 2 0, Point 4 2, Point 2 4, Point 0 2],
     [Point 0 0, Point 4 2, Point 4 4, Point 2 4],
     [Point 2 0, Point 4 4, Point 2 4, Point 3 2, Point 1 2, Point 2 4, Point 0 4],
     [Point 0 0, Point 4 2, Point 2 4],
     [Point 1 1, Point 3 1, Point 3 3, Point 1 3],
     [Point 2 0, Point 4 0, Point 0 4, Point 0 2, Point 2 2],
     [Point 0 0, Point 2 0, Point 2 2, Point 0 2],
     [Point 0 2, Point 4 2, Point 2 4],
     [Point 2 2, Point 4 4, Point 0 4],
     [Point 2 0, Point 2 2, Point 0 2],
     [Point 0 0, Point 2 0, Point 0 2],
     []]"

definition middlePatchSet :: "int list" where
  "middlePatchSet = [0, 4, 8, 15]"

subsection \<open>drawPatch (lines 180--200)\<close>

text \<open>The parameter \<open>type_\<close> of the source is \<open>typ\<close> here.\<close>

text \<open>Go's \<open>%\<close> truncates towards zero: \<open>smod\<close>.\<close>

definition drawPatch ::
  "Point \<Rightarrow> int \<Rightarrow> bool \<Rightarrow> int \<Rightarrow> nat \<Rightarrow> real \<Rightarrow> RGBA \<Rightarrow> int \<Rightarrow> ('g, unit) prog" where
  "drawPatch pos turn invert typ img patchSize foreColor penWidth =
     bind_prog (lift (index_at pathSet typ)) (\<lambda>path.
     let turn = turn smod 4 in
     bind_prog (gg img Push) (\<lambda>_.
     bind_prog (gg img (Translate (X pos * patchSize + real_of_int penWidth / 2)
                                    (Y pos * patchSize + real_of_int penWidth / 2))) (\<lambda>_.
     bind_prog (gg img (RotateAbout (real_of_int turn * pi / 2)
                                      (patchSize / 2) (patchSize / 2))) (\<lambda>_.
     bind_prog (for_each path
                  (\<lambda>p. gg img (LineTo (X p / 4 * patchSize) (Y p / 4 * patchSize)))) (\<lambda>_.
     bind_prog (gg img ClosePath) (\<lambda>_.
     bind_prog (if invert then
                  bind_prog (gg img (MoveTo 0 0)) (\<lambda>_.
                  bind_prog (gg img (LineTo 0 patchSize)) (\<lambda>_.
                  bind_prog (gg img (LineTo patchSize patchSize)) (\<lambda>_.
                  bind_prog (gg img (LineTo patchSize 0)) (\<lambda>_.
                  gg img ClosePath))))
                else ret ()) (\<lambda>_.
     bind_prog (gg img (SetColor foreColor)) (\<lambda>_.
     bind_prog (gg img Fill) (\<lambda>_.
     gg img Pop)))))))))"

subsection \<open>Render (lines 112--178)\<close>

text \<open>
  The fields of the code, as Render reads them (lines 113--128). A conversion to
  \<open>int\<close> or \<open>int64\<close> reads the 64 bits as a signed number.
\<close>

definition seed :: "64 word \<Rightarrow> int" where
  "seed code = sint (code mod 2147483647)"

definition middleTypeRaw :: "64 word \<Rightarrow> int" where
  "middleTypeRaw code = sint (code AND 3)"

definition middleInvert :: "64 word \<Rightarrow> bool" where
  "middleInvert code = (drop_bit 2 code AND 1 = 1)"

definition cornerType :: "64 word \<Rightarrow> int" where
  "cornerType code = sint (drop_bit 3 code AND 15)"

definition cornerInvert :: "64 word \<Rightarrow> bool" where
  "cornerInvert code = (drop_bit 7 code AND 1 = 1)"

definition cornerTurn :: "64 word \<Rightarrow> int" where
  "cornerTurn code = sint (drop_bit 8 code AND 3)"

definition sideType :: "64 word \<Rightarrow> int" where
  "sideType code = sint (drop_bit 10 code AND 15)"

definition sideInvert :: "64 word \<Rightarrow> bool" where
  "sideInvert code = (drop_bit 14 code AND 1 = 1)"

definition sideTurn :: "64 word \<Rightarrow> int" where
  "sideTurn code = sint (drop_bit 15 code AND 3)"

definition swapCross :: "64 word \<Rightarrow> bool" where
  "swapCross code = (drop_bit 47 code AND 1 = 1)"

definition Render :: "'g rand_lib \<Rightarrow> 64 word \<Rightarrow> int \<Rightarrow> Settings \<Rightarrow> ('g, Context) prog" where
  "Render R code totalSize settings =
     bind_prog (rand_New R (seed code)) (\<lambda>rnd.
     let penWidth = 1 in
     bind_prog (lift (index_at middlePatchSet (middleTypeRaw code))) (\<lambda>middleType.
     bind_prog (rand_Intn R rnd (int (length (ColorPalette settings)))) (\<lambda>i.
     bind_prog (lift (index_at (ColorPalette settings) i)) (\<lambda>randomFirstColor.
     bind_prog (lift_err (hexConvert (Color_Code randomFirstColor))) (\<lambda>(red, green, blue).
     bind_prog (rand_Intn R rnd (int (length (ColorPalette settings)))) (\<lambda>i.
     bind_prog (lift (index_at (ColorPalette settings) i)) (\<lambda>randomSecondColor.
     bind_prog (lift_err (hexConvert (Color_Code randomSecondColor)))
       (\<lambda>(secondRed, secondGreen, secondBlue).
     let foreColor = RGBA red green blue (Alpha settings);
         secondColor =
           (if TwoColor settings then RGBA secondRed secondGreen secondBlue (Alpha settings)
            else foreColor);
         middleColor = (if swapCross code then foreColor else secondColor)
     in
     bind_prog (NewContext totalSize totalSize) (\<lambda>img.
     let patchSize = real_of_int totalSize / 3 in
     bind_prog
       (if \<not> TransparentBackground settings then
          bind_prog (rand_Intn R rnd (int (length (BackgroundColors settings)))) (\<lambda>i.
          bind_prog (lift (index_at (BackgroundColors settings) i)) (\<lambda>randomBackgroundColor.
          bind_prog (lift_err (hexConvert randomBackgroundColor)) (\<lambda>(bgRed, bgGreen, bgBlue).
          bind_prog (gg img (DrawRectangle 0 0 (real_of_int totalSize)
                                (real_of_int totalSize))) (\<lambda>_.
          bind_prog (gg img (SetRGB255 (uint bgRed) (uint bgGreen) (uint bgBlue))) (\<lambda>_.
          gg img Fill)))))
        else ret ()) (\<lambda>_.
     bind_prog (drawPatch (Point 1 1) 0 (middleInvert code) middleType img patchSize
                  middleColor penWidth) (\<lambda>_.
     bind_prog (for_each (enumerate 0 [Point 1 0, Point 2 1, Point 1 2, Point 0 1])
                  (\<lambda>(i, p). drawPatch p (sideTurn code + 1 + int i) (sideInvert code)
                     (sideType code) img patchSize foreColor penWidth)) (\<lambda>_.
     bind_prog (for_each (enumerate 0 [Point 0 0, Point 2 0, Point 2 2, Point 0 2])
                  (\<lambda>(i, p). drawPatch p (cornerTurn code + 1 + int i) (cornerInvert code)
                     (cornerType code) img patchSize secondColor penWidth)) (\<lambda>_.
     Image img)))))))))))))"

section \<open>Properties\<close>

subsection \<open>Code\<close>

lemma or_push_nat: "b < 2 ^ n \<Longrightarrow> (push_bit n a OR b) = push_bit n a + (b::nat)"
proof -
  assume b: "b < 2 ^ n"
  have "\<not> bit (push_bit n a) k \<or> \<not> bit b k" for k
  proof (cases "k < n")
    case True
    then show ?thesis by (simp add: bit_push_bit_iff)
  next
    case False
    have "take_bit n b = b" using b by (simp add: take_bit_eq_mod)
    then have "bit b k = bit (take_bit n b) k" by simp
    then show ?thesis using False by (simp add: bit_take_bit_iff)
  qed
  then show ?thesis by (rule disjunctive_add [symmetric])
qed

lemma byte_or_shift: "b < 256 \<Longrightarrow> b OR push_bit 8 z = b + 256 * (z::nat)"
  using or_push_nat [of b 8 z] by (simp add: or.commute push_bit_eq_mult)

lemma unat_byte_lt: "unat (b :: 8 word) < 256"
  using unsigned_less [of b] by simp

lemma unat_ucast_byte: "unat (ucast (b :: 8 word) :: 64 word) = unat b"
proof -
  have "unat b < 2 ^ 64" using unat_byte_lt [of b] by simp
  then show ?thesis by (simp add: unsigned_ucast_eq take_bit_eq_mod)
qed

lemma unat_shifted_byte:
  "k \<le> 56 \<Longrightarrow> unat (push_bit k (ucast (b :: 8 word)) :: 64 word) = push_bit k (unat b)"
proof -
  assume k: "k \<le> 56"
  have "push_bit k (unat b) < 2 ^ k * 2 ^ 8"
    using unat_byte_lt [of b] by (simp add: push_bit_eq_mult)
  also have "\<dots> = 2 ^ (k + 8)" by (simp add: power_add)
  also have "\<dots> \<le> (2::nat) ^ 64" using k by (intro power_increasing) auto
  finally have "push_bit k (unat b) < 2 ^ 64" .
  then show ?thesis
    by (simp add: unsigned_push_bit_eq unat_ucast_byte take_bit_eq_mod)
qed

lemma Uint64_value:
  fixes b0 b1 b2 b3 b4 b5 b6 b7 :: "8 word"
  shows "unat (ucast b7 OR push_bit 8 (ucast b6) OR push_bit 16 (ucast b5)
        OR push_bit 24 (ucast b4) OR push_bit 32 (ucast b3)
        OR push_bit 40 (ucast b2) OR push_bit 48 (ucast b1)
        OR push_bit 56 (ucast b0) :: 64 word) = big_endian [b0, b1, b2, b3, b4, b5, b6, b7]"
proof -
  have "unat (ucast b7 OR push_bit 8 (ucast b6) OR push_bit 16 (ucast b5)
        OR push_bit 24 (ucast b4) OR push_bit 32 (ucast b3)
        OR push_bit 40 (ucast b2) OR push_bit 48 (ucast b1)
        OR push_bit 56 (ucast b0) :: 64 word)
      = unat b7 OR push_bit 8 (unat b6) OR push_bit 16 (unat b5) OR push_bit 24 (unat b4)
        OR push_bit 32 (unat b3) OR push_bit 40 (unat b2) OR push_bit 48 (unat b1)
        OR push_bit 56 (unat b0)"
    by (simp add: unsigned_or_eq unat_shifted_byte unat_ucast_byte)
  also have "\<dots> = unat b7 OR push_bit 8 (unat b6 OR push_bit 8 (unat b5 OR push_bit 8 (unat b4
        OR push_bit 8 (unat b3 OR push_bit 8 (unat b2 OR push_bit 8 (unat b1
        OR push_bit 8 (unat b0)))))))"
    by (simp add: push_bit_or)
  also have "\<dots> = unat b7 + 256 * (unat b6 + 256 * (unat b5 + 256 * (unat b4
        + 256 * (unat b3 + 256 * (unat b2 + 256 * (unat b1 + 256 * unat b0))))))"
    by (simp only: byte_or_shift [OF unat_byte_lt])
  also have "\<dots> = big_endian [b0, b1, b2, b3, b4, b5, b6, b7]"
    by (simp add: big_endian_def)
  finally show ?thesis .
qed

lemma list8:
  "length (xs :: 'a list) = 8 \<Longrightarrow> xs = [xs ! 0, xs ! 1, xs ! 2, xs ! 3, xs ! 4, xs ! 5, xs ! 6, xs ! 7]"
  by (auto simp: length_Suc_conv eval_nat_numeral)

text \<open>
  Claim C2. For every input string, the empty one included, \<open>Code\<close> returns a value
  (it does not panic, and it has no error result), and the value is the number whose
  big-endian digits are the final eight bytes of the digest of the input.
\<close>

theorem Code_total_big_endian:
  "\<exists>w. Code Sum512 str = Inr w \<and> unat w = big_endian (final8 (Rep_bytes64 (Sum512 str)))"
proof -
  define d where "d = Rep_bytes64 (Sum512 str)"
  have len: "length d = 64" using Rep_bytes64 [of "Sum512 str"] by (simp add: d_def)
  define b where "b = drop 56 d"
  have lb: "length b = 8" by (simp add: b_def len)
  have b8: "b = [b ! 0, b ! 1, b ! 2, b ! 3, b ! 4, b ! 5, b ! 6, b ! 7]"
    using lb by (rule list8)
  have fin: "final8 d = b" by (simp add: final8_def b_def len)
  have "Uint64 b = Inr (ucast (b ! 7) OR push_bit 8 (ucast (b ! 6)) OR push_bit 16 (ucast (b ! 5))
        OR push_bit 24 (ucast (b ! 4)) OR push_bit 32 (ucast (b ! 3))
        OR push_bit 40 (ucast (b ! 2)) OR push_bit 48 (ucast (b ! 1))
        OR push_bit 56 (ucast (b ! 0)))"
    by (simp add: Uint64_def lb)
  moreover have "unat (ucast (b ! 7) OR push_bit 8 (ucast (b ! 6)) OR push_bit 16 (ucast (b ! 5))
        OR push_bit 24 (ucast (b ! 4)) OR push_bit 32 (ucast (b ! 3))
        OR push_bit 40 (ucast (b ! 2)) OR push_bit 48 (ucast (b ! 1))
        OR push_bit 56 (ucast (b ! 0)) :: 64 word) = big_endian b"
    by (subst (9) b8) (rule Uint64_value)
  ultimately show ?thesis
    by (simp add: Code_def d_def [symmetric] b_def [symmetric] fin)
qed

end
